theory Spec2Isabelle
  imports Main
begin

section \<open>Address book of answer.py: data model\<close>

text \<open>
  The contact manager of \<^verbatim>\<open>answer.py\<close>: typed fields with their validators, contacts
  (ordered field lists) and the address book (a dict from integer ids to contacts).
  A Python \<^verbatim>\<open>str\<close> is a \<open>string\<close> whose characters are code points below 256; on these
  the class \<^verbatim>\<open>\d\<close> of \<^verbatim>\<open>re\<close> is exactly \<^verbatim>\<open>0\<close> to \<^verbatim>\<open>9\<close>. Every \<^verbatim>\<open>raise\<close> of the source,
  and every exception of a library call the source relies on, is a value of \<open>error\<close>.
\<close>

datatype error =
    IncorrectInput string
  | FieldDecodeError string
  | ValueError
  | KeyError
  | IndexError
  | TypeError
  | OverflowError

text \<open>
  \<^verbatim>\<open>index_error_decorator\<close>: the wrapped call's \<^verbatim>\<open>ValueError\<close> becomes \<^verbatim>\<open>IncorrectInput\<close>;
  every other outcome passes through.
\<close>

definition index_error_decorator :: "error + 'a \<Rightarrow> error + 'a" where
  "index_error_decorator r =
     (case r of
        Inl ValueError \<Rightarrow> Inl (IncorrectInput ''Index value is not integer!'')
      | _ \<Rightarrow> r)"

subsection \<open>Strings\<close>

definition is_digit :: "char \<Rightarrow> bool" where
  "is_digit c \<longleftrightarrow> c \<in> set ''0123456789''"

definition digit_val :: "char \<Rightarrow> nat" where
  "digit_val c = of_char c - 48"

text \<open>\<^verbatim>\<open>sep.join(xs)\<close>.\<close>

fun join :: "string \<Rightarrow> string list \<Rightarrow> string" where
  "join sep [] = []"
| "join sep [x] = x"
| "join sep (x # y # ys) = x @ sep @ join sep (y # ys)"

text \<open>\<^verbatim>\<open>sub in s\<close> on two strings: \<open>sub\<close> occurs in \<open>s\<close> as a contiguous run.\<close>

fun starts_with :: "string \<Rightarrow> string \<Rightarrow> bool" where
  "starts_with [] s = True"
| "starts_with (a # as) [] = False"
| "starts_with (a # as) (c # cs) = (a = c \<and> starts_with as cs)"

fun str_contains :: "string \<Rightarrow> string \<Rightarrow> bool" where
  "str_contains sub [] = (sub = [])"
| "str_contains sub (c # cs) = (starts_with sub (c # cs) \<or> str_contains sub cs)"

text \<open>\<^verbatim>\<open>str(i)\<close> for an integer, as \<^verbatim>\<open>json.dumps\<close> writes a dict's integer keys.\<close>

definition digit_char :: "nat \<Rightarrow> char" where
  "digit_char d = char_of (48 + d)"

fun str_nat :: "nat \<Rightarrow> string" where
  "str_nat n = (if n < 10 then [digit_char n] else str_nat (n div 10) @ [digit_char (n mod 10)])"

declare str_nat.simps [simp del]

definition str_int :: "int \<Rightarrow> string" where
  "str_int i = (if i < 0 then CHR ''-'' # str_nat (nat (- i)) else str_nat (nat i))"

subsection \<open>Fields\<close>

datatype field_kind = Name | Phone | Email | Birthday | Note

text \<open>The class attribute \<^verbatim>\<open>field_description\<close> of the five field classes.\<close>

fun description :: "field_kind \<Rightarrow> string" where
  "description Name = ''Name''"
| "description Phone = ''Phone''"
| "description Email = ''Email''"
| "description Birthday = ''Birthday''"
| "description Note = ''Note''"

text \<open>
  A field object: its class, its \<^verbatim>\<open>value\<close>, and the three attributes a \<^verbatim>\<open>PhoneField\<close>
  carries besides (empty for the other classes, which do not have them).
\<close>

record data_field =
  kind :: field_kind
  field_value :: string
  country_code :: string
  operator_code :: string
  phone_number :: string

definition field_description :: "data_field \<Rightarrow> string" where
  "field_description f = description (kind f)"

text \<open>
  The object \<^verbatim>\<open>__init__\<close> hands to \<^verbatim>\<open>validate\<close>. Its \<^verbatim>\<open>value\<close> is \<^verbatim>\<open>None\<close> in the source; a
  successful \<^verbatim>\<open>validate\<close> overwrites it and a failing one leaves no object, so the
  placeholder is never read.
\<close>

definition blank_field :: "field_kind \<Rightarrow> data_field" where
  "blank_field k =
     \<lparr>kind = k, field_value = [], country_code = [], operator_code = [], phone_number = []\<rparr>"

subsubsection \<open>Birthday\<close>

text \<open>
  \<^verbatim>\<open>datetime.strptime(value, '%d.%m.%Y')\<close> of the standard library. The format compiles to
  the pattern
  \<^verbatim>\<open>(3[0-1]|[1-2]\d|0[1-9]|[1-9]| [1-9])\.(1[0-2]|0[1-9]|[1-9])\.(\d\d\d\d)\<close>,
  which must match the whole input; the three numbers must then be a date of the calendar
  in years 1 to 9999. Anything else raises \<^verbatim>\<open>ValueError\<close>.
\<close>

fun match_day :: "string \<Rightarrow> (nat \<times> string) option" where
  "match_day (a # b # c # r) =
     (if a = CHR ''3'' \<and> (b = CHR ''0'' \<or> b = CHR ''1'') \<and> c = CHR ''.''
        then Some (30 + digit_val b, r)
      else if (a = CHR ''1'' \<or> a = CHR ''2'') \<and> is_digit b \<and> c = CHR ''.''
        then Some (10 * digit_val a + digit_val b, r)
      else if a = CHR ''0'' \<and> is_digit b \<and> b \<noteq> CHR ''0'' \<and> c = CHR ''.''
        then Some (digit_val b, r)
      else if is_digit a \<and> a \<noteq> CHR ''0'' \<and> b = CHR ''.''
        then Some (digit_val a, c # r)
      else if a = CHR '' '' \<and> is_digit b \<and> b \<noteq> CHR ''0'' \<and> c = CHR ''.''
        then Some (digit_val b, r)
      else None)"
| "match_day [a, b] =
     (if is_digit a \<and> a \<noteq> CHR ''0'' \<and> b = CHR ''.'' then Some (digit_val a, []) else None)"
| "match_day _ = None"

fun match_month :: "string \<Rightarrow> (nat \<times> string) option" where
  "match_month (a # b # c # r) =
     (if a = CHR ''1'' \<and> (b = CHR ''0'' \<or> b = CHR ''1'' \<or> b = CHR ''2'') \<and> c = CHR ''.''
        then Some (10 + digit_val b, r)
      else if a = CHR ''0'' \<and> is_digit b \<and> b \<noteq> CHR ''0'' \<and> c = CHR ''.''
        then Some (digit_val b, r)
      else if is_digit a \<and> a \<noteq> CHR ''0'' \<and> b = CHR ''.''
        then Some (digit_val a, c # r)
      else None)"
| "match_month [a, b] =
     (if is_digit a \<and> a \<noteq> CHR ''0'' \<and> b = CHR ''.'' then Some (digit_val a, []) else None)"
| "match_month _ = None"

fun match_year :: "string \<Rightarrow> nat option" where
  "match_year [a, b, c, d] =
     (if is_digit a \<and> is_digit b \<and> is_digit c \<and> is_digit d
        then Some (1000 * digit_val a + 100 * digit_val b + 10 * digit_val c + digit_val d)
      else None)"
| "match_year _ = None"

definition is_leap :: "nat \<Rightarrow> bool" where
  "is_leap y \<longleftrightarrow> y mod 4 = 0 \<and> (y mod 100 \<noteq> 0 \<or> y mod 400 = 0)"

definition days_in_month :: "nat \<Rightarrow> nat \<Rightarrow> nat" where
  "days_in_month y m =
     (if m = 2 then (if is_leap y then 29 else 28)
      else if m = 4 \<or> m = 6 \<or> m = 9 \<or> m = 11 then 30
      else 31)"

text \<open>The parsed date as (year, month, day).\<close>

definition strptime :: "string \<Rightarrow> error + (nat \<times> nat \<times> nat)" where
  "strptime s =
     (case match_day s of
        None \<Rightarrow> Inl ValueError
      | Some (d, r1) \<Rightarrow>
          (case match_month r1 of
             None \<Rightarrow> Inl ValueError
           | Some (m, r2) \<Rightarrow>
               (case match_year r2 of
                  None \<Rightarrow> Inl ValueError
                | Some y \<Rightarrow>
                    if 1 \<le> y \<and> 1 \<le> d \<and> d \<le> days_in_month y m then Inr (y, m, d)
                    else Inl ValueError)))"

text \<open>A \<^verbatim>\<open>datetime\<close> object is true in a condition, whatever its date.\<close>

definition datetime_truthy :: "nat \<times> nat \<times> nat \<Rightarrow> bool" where
  "datetime_truthy d = True"

text \<open>\<^verbatim>\<open>BirthdayField.validate\<close>.\<close>

definition birthday_validate :: "data_field \<Rightarrow> string \<Rightarrow> error + data_field" where
  "birthday_validate f v =
     (case strptime v of
        Inl e \<Rightarrow> Inl e
      | Inr d \<Rightarrow>
          if \<not> datetime_truthy d then Inl (IncorrectInput (v @ '' is not a date dd.mm.yyy!''))
          else Inr (f\<lparr>field_value := v\<rparr>))"

subsubsection \<open>Phone\<close>

text \<open>
  \<^verbatim>\<open>PHONE_REGEX = ^\+?(\d{2})?\(?(0\d{2})\)?(\d{7}$)\<close>, matched by backtracking as \<^verbatim>\<open>re\<close>
  does: an optional item is tried first and given up only when the rest fails. Each
  function below matches the pattern from one item to the end.

  \<^verbatim>\<open>(\d{7}$)\<close>: seven digits at the end of the string, or before its final newline.
\<close>

definition subscriber :: "string \<Rightarrow> string option" where
  "subscriber s =
     (if 7 \<le> length s \<and> list_all is_digit (take 7 s)
         \<and> (drop 7 s = [] \<or> drop 7 s = [CHR 0x0A])
      then Some (take 7 s) else None)"

text \<open>\<^verbatim>\<open>\)?(\d{7}$)\<close>\<close>

definition from_close :: "string \<Rightarrow> string option" where
  "from_close s =
     (case s of
        c # r \<Rightarrow>
          if c = CHR '')'' then (case subscriber r of Some n \<Rightarrow> Some n | None \<Rightarrow> subscriber s)
          else subscriber s
      | [] \<Rightarrow> subscriber s)"

text \<open>\<^verbatim>\<open>(0\d{2})\)?(\d{7}$)\<close>: the operator group is not optional.\<close>

definition from_operator :: "string \<Rightarrow> (string \<times> string) option" where
  "from_operator s =
     (case s of
        a # b # c # r \<Rightarrow>
          if a = CHR ''0'' \<and> is_digit b \<and> is_digit c
          then map_option (\<lambda>n. ([a, b, c], n)) (from_close r)
          else None
      | _ \<Rightarrow> None)"

text \<open>\<^verbatim>\<open>\(?(0\d{2})\)?(\d{7}$)\<close>\<close>

definition from_open :: "string \<Rightarrow> (string \<times> string) option" where
  "from_open s =
     (case s of
        c # r \<Rightarrow>
          if c = CHR ''('' then (case from_operator r of Some x \<Rightarrow> Some x | None \<Rightarrow> from_operator s)
          else from_operator s
      | [] \<Rightarrow> from_operator s)"

text \<open>
  \<^verbatim>\<open>(\d{2})?\(?(0\d{2})\)?(\d{7}$)\<close>. The result is \<^verbatim>\<open>search.group(1, 2, 3)\<close>: group 1 is
  \<^verbatim>\<open>None\<close> when the country code took no part in the match.
\<close>

definition from_country :: "string \<Rightarrow> (string option \<times> string option \<times> string) option" where
  "from_country s =
     (let without = map_option (\<lambda>(op, n). (None, Some op, n)) (from_open s) in
      case s of
        a # b # r \<Rightarrow>
          if is_digit a \<and> is_digit b
          then (case from_open r of
                  Some (op, n) \<Rightarrow> Some (Some [a, b], Some op, n)
                | None \<Rightarrow> without)
          else without
      | _ \<Rightarrow> without)"

text \<open>\<^verbatim>\<open>re.search(PHONE_REGEX, value)\<close>; \<open>None\<close> when there is no match.\<close>

definition PHONE_REGEX_search ::
  "string \<Rightarrow> (string option \<times> string option \<times> string) option" where
  "PHONE_REGEX_search s =
     (case s of
        c # r \<Rightarrow>
          if c = CHR ''+'' then (case from_country r of Some g \<Rightarrow> Some g | None \<Rightarrow> from_country s)
          else from_country s
      | [] \<Rightarrow> from_country s)"

text \<open>\<^verbatim>\<open>PhoneField.validate\<close>. \<^verbatim>\<open>value.replace(" ", "")\<close> deletes the space character only.\<close>

definition phone_validate :: "data_field \<Rightarrow> string \<Rightarrow> error + data_field" where
  "phone_validate f v =
     (let value = filter (\<lambda>c. c \<noteq> CHR '' '') v in
      case PHONE_REGEX_search value of
        None \<Rightarrow> Inl (IncorrectInput (''No phone number found in '' @ value))
      | Some (country, operator, phone) \<Rightarrow>
          (case operator of
             None \<Rightarrow> Inl (IncorrectInput (''Operator code not found in '' @ value))
           | Some op \<Rightarrow>
               (let cc = (case country of None \<Rightarrow> ''38'' | Some c \<Rightarrow> c) in
                Inr (f\<lparr>country_code := cc, operator_code := op, phone_number := phone,
                       field_value := ''+'' @ cc @ op @ phone\<rparr>))))"

subsubsection \<open>Email\<close>

text \<open>
  \<^verbatim>\<open>EMAIL_REGEX.match(value)\<close> with \<^verbatim>\<open>[^@]+@[^@]+\.[^@]+\<close>: a match starts at the first
  character and may stop before the end. The first run of non-\<^verbatim>\<open>@\<close> characters must be
  non-empty and followed by \<^verbatim>\<open>@\<close>; the run of non-\<^verbatim>\<open>@\<close> characters after that \<^verbatim>\<open>@\<close> must hold a
  dot that is neither its first nor its last character.
\<close>

definition EMAIL_REGEX_match :: "string \<Rightarrow> bool" where
  "EMAIL_REGEX_match s =
     (let local = takeWhile (\<lambda>c. c \<noteq> CHR ''@'') s;
          rest = dropWhile (\<lambda>c. c \<noteq> CHR ''@'') s
      in local \<noteq> [] \<and> rest \<noteq> [] \<and>
         (let run = takeWhile (\<lambda>c. c \<noteq> CHR ''@'') (tl rest)
          in CHR ''.'' \<in> set (butlast (tl run))))"

definition email_validate :: "data_field \<Rightarrow> string \<Rightarrow> error + data_field" where
  "email_validate f v =
     (if \<not> EMAIL_REGEX_match v then Inl (IncorrectInput (v @ '' is not an email.''))
      else Inr (f\<lparr>field_value := v\<rparr>))"

subsubsection \<open>Dispatch, construction and the registry\<close>

text \<open>\<^verbatim>\<open>field.validate(value)\<close>: the method of the field's class.\<close>

definition validate :: "data_field \<Rightarrow> string \<Rightarrow> error + data_field" where
  "validate f v =
     (case kind f of
        Name \<Rightarrow> Inr (f\<lparr>field_value := v\<rparr>)
      | Note \<Rightarrow> Inr (f\<lparr>field_value := v\<rparr>)
      | Birthday \<Rightarrow> birthday_validate f v
      | Phone \<Rightarrow> phone_validate f v
      | Email \<Rightarrow> email_validate f v)"

text \<open>\<^verbatim>\<open>field_class(value)\<close>: \<^verbatim>\<open>__init__\<close> runs \<^verbatim>\<open>validate\<close> on the new object.\<close>

definition field_class_init :: "field_kind \<Rightarrow> string \<Rightarrow> error + data_field" where
  "field_class_init k v = validate (blank_field k) v"

definition REGISTERED_FIELDS :: "string \<rightharpoonup> field_kind" where
  "REGISTERED_FIELDS =
     map_of [(''Name'', Name), (''Phone'', Phone), (''Email'', Email),
             (''Birthday'', Birthday), (''Note'', Note)]"

text \<open>
  A field of the JSON document after \<^verbatim>\<open>json.loads\<close>: a dict from keys to strings, written
  as the list of its items; \<open>map_of\<close> looks a key up.
\<close>

type_synonym field_dict = "(string \<times> string) list"

definition to_json :: "data_field \<Rightarrow> field_dict" where
  "to_json f = [(''value'', field_value f), (''field_name'', field_description f)]"

definition decode_message :: string where
  "decode_message = ''Wrong message format. 'field_name' and 'value' required''"

text \<open>\<^verbatim>\<open>field_decoder\<close>: a \<^verbatim>\<open>KeyError\<close> anywhere in the \<^verbatim>\<open>try\<close> becomes \<^verbatim>\<open>FieldDecodeError\<close>.\<close>

definition field_decoder :: "field_dict \<Rightarrow> error + data_field" where
  "field_decoder field_dict =
     (case map_of field_dict ''field_name'' of
        None \<Rightarrow> Inl (FieldDecodeError decode_message)
      | Some field_name \<Rightarrow>
          (case REGISTERED_FIELDS field_name of
             None \<Rightarrow> Inl (FieldDecodeError decode_message)
           | Some k \<Rightarrow>
               (case map_of field_dict ''value'' of
                  None \<Rightarrow> Inl (FieldDecodeError decode_message)
                | Some v \<Rightarrow>
                    (case field_class_init k v of
                       Inl KeyError \<Rightarrow> Inl (FieldDecodeError decode_message)
                     | r \<Rightarrow> r))))"

subsection \<open>Indices\<close>

text \<open>
  What a caller may pass as an index or an id: an integer, or a string. \<^verbatim>\<open>int(x)\<close> returns an
  integer as it is and parses a string: blanks around it are dropped, a sign may come
  first, then decimal digits, where single underscores may separate digits. Any other
  string raises \<^verbatim>\<open>ValueError\<close>, and so does a numeral of more than 4300 digits (the
  interpreter's default limit for converting a string to an integer; leading zeros count,
  underscores and the sign do not).
\<close>

datatype index_arg = IntArg int | StrArg string

text \<open>The characters \<^verbatim>\<open>str.isspace\<close> accepts, among the code points below 256.\<close>

definition is_space :: "char \<Rightarrow> bool" where
  "is_space c \<longleftrightarrow>
     c \<in> set [CHR 0x09, CHR 0x0A, CHR 0x0B, CHR 0x0C, CHR 0x0D, CHR 0x1C, CHR 0x1D,
              CHR 0x1E, CHR 0x1F, CHR 0x20, CHR 0x85, CHR 0xA0]"

text \<open>
  The blanks \<^verbatim>\<open>int\<close> drops around a numeral: the six ASCII blanks and the two blanks above
  127. The separators \<^verbatim>\<open>0x1C\<close> to \<^verbatim>\<open>0x1F\<close> are not among them.
\<close>

definition is_int_space :: "char \<Rightarrow> bool" where
  "is_int_space c \<longleftrightarrow>
     c \<in> set [CHR 0x09, CHR 0x0A, CHR 0x0B, CHR 0x0C, CHR 0x0D, CHR 0x20, CHR 0x85, CHR 0xA0]"

definition int_strip :: "string \<Rightarrow> string" where
  "int_strip s = rev (dropWhile is_int_space (rev (dropWhile is_int_space s)))"

definition max_str_digits :: nat where
  "max_str_digits = 4300"

fun int_digits :: "nat \<Rightarrow> string \<Rightarrow> nat option" where
  "int_digits acc [] = Some acc"
| "int_digits acc (c # cs) =
     (if is_digit c then int_digits (10 * acc + digit_val c) cs
      else if c = CHR ''_'' \<and> cs \<noteq> [] \<and> is_digit (hd cs) then int_digits acc cs
      else None)"

definition unsigned_literal :: "string \<Rightarrow> nat option" where
  "unsigned_literal s =
     (case s of
        [] \<Rightarrow> None
      | c # cs \<Rightarrow>
          if is_digit c \<and> length (filter is_digit s) \<le> max_str_digits then int_digits 0 s
          else None)"

definition py_int :: "index_arg \<Rightarrow> error + int" where
  "py_int x =
     (case x of
        IntArg i \<Rightarrow> Inr i
      | StrArg s \<Rightarrow>
          (case int_strip s of
             [] \<Rightarrow> Inl ValueError
           | c # cs \<Rightarrow>
               (case (if c = CHR ''-'' then map_option (\<lambda>n. - int n) (unsigned_literal cs)
                      else if c = CHR ''+'' then map_option int (unsigned_literal cs)
                      else map_option int (unsigned_literal (c # cs))) of
                  None \<Rightarrow> Inl ValueError
                | Some i \<Rightarrow> Inr i)))"

text \<open>
  The position a list of length \<open>n\<close> gives to the integer index \<open>i\<close>: a negative index counts
  from the end; \<open>None\<close> is \<^verbatim>\<open>IndexError\<close>.
\<close>

definition list_position :: "nat \<Rightarrow> int \<Rightarrow> nat option" where
  "list_position n i =
     (let j = (if i < 0 then i + int n else i)
      in if 0 \<le> j \<and> j < int n then Some (nat j) else None)"

text \<open>
  \<^verbatim>\<open>xs[x]\<close> and \<^verbatim>\<open>xs[x] = v\<close>: a string as the index raises \<^verbatim>\<open>TypeError\<close>; an integer that is
  no position of the list, however large, raises \<^verbatim>\<open>IndexError\<close>.
\<close>

definition subscript_position :: "nat \<Rightarrow> index_arg \<Rightarrow> error + nat" where
  "subscript_position n x =
     (case x of
        StrArg s \<Rightarrow> Inl TypeError
      | IntArg i \<Rightarrow> (case list_position n i of None \<Rightarrow> Inl IndexError | Some j \<Rightarrow> Inr j))"

text \<open>
  \<^verbatim>\<open>xs.pop(i)\<close> converts its argument to the machine type \<^verbatim>\<open>Py_ssize_t\<close> first (64 bits wide
  on a 64-bit interpreter): an integer outside that type raises \<^verbatim>\<open>OverflowError\<close>, one inside
  it that is no position of the list raises \<^verbatim>\<open>IndexError\<close>.
\<close>

definition PY_SSIZE_T_MAX :: int where
  "PY_SSIZE_T_MAX = 2 ^ 63 - 1"

definition pop_position :: "nat \<Rightarrow> int \<Rightarrow> error + nat" where
  "pop_position n i =
     (if i < - PY_SSIZE_T_MAX - 1 \<or> PY_SSIZE_T_MAX < i then Inl OverflowError
      else (case list_position n i of None \<Rightarrow> Inl IndexError | Some j \<Rightarrow> Inr j))"

subsection \<open>Contact\<close>

record contact =
  contact_fields :: "data_field list"
  phone :: string
  birthday :: string
  mail :: string
  contact_note :: string

definition Contact_init :: contact where
  "Contact_init = \<lparr>contact_fields = [], phone = [], birthday = [], mail = [], contact_note = []\<rparr>"

text \<open>
  The \<^verbatim>\<open>"fields"\<close> entry of a contact in the document: \<^verbatim>\<open>null\<close> or an array of fields. A
  contact of the document is a dict, again written as the list of its items.
\<close>

datatype json_fields = JNull | JList "field_dict list"

type_synonym contact_dict = "(string \<times> json_fields) list"

definition Contact_to_json :: "contact \<Rightarrow> contact_dict" where
  "Contact_to_json c = [(''fields'', JList (map to_json (contact_fields c)))]"

text \<open>
  \<^verbatim>\<open>Contact.add\<close> appends and returns \<^verbatim>\<open>self.fields.index(field_item)\<close>. Field objects compare
  by identity, and every caller in the source passes an object it has just made, so the
  index found is that of the appended item.
\<close>

definition Contact_add :: "contact \<Rightarrow> data_field \<Rightarrow> nat \<times> contact" where
  "Contact_add c field_item = (length (contact_fields c), c\<lparr>contact_fields := contact_fields c @ [field_item]\<rparr>)"

text \<open>
  \<^verbatim>\<open>Contact.from_json\<close>: the result, and the contact as the call leaves it (fields decoded
  before a failure stay appended).
\<close>

fun from_json_loop :: "field_dict list \<Rightarrow> contact \<Rightarrow> (error + unit) \<times> contact" where
  "from_json_loop [] c = (Inr (), c)"
| "from_json_loop (field_dict # rest) c =
     (case field_decoder field_dict of
        Inl e \<Rightarrow> (Inl e, c)
      | Inr field \<Rightarrow> from_json_loop rest (snd (Contact_add c field)))"

definition from_json :: "contact_dict \<Rightarrow> contact \<Rightarrow> (error + unit) \<times> contact" where
  "from_json dict_contact c =
     (case map_of dict_contact ''fields'' of
        None \<Rightarrow> (Inl KeyError, c)
      | Some JNull \<Rightarrow> (Inr (), c)
      | Some (JList field_list) \<Rightarrow>
          if field_list \<noteq> [] then from_json_loop field_list c else (Inr (), c))"

text \<open>\<^verbatim>\<open>Contact.name\<close>\<close>

definition name :: "contact \<Rightarrow> string" where
  "name c =
     (let names = map field_value (filter (\<lambda>f. field_description f = ''Name'') (contact_fields c));
          name = (if names \<noteq> [] then join '' '' names else []);
          result = join '' '' (map (\<lambda>ch. [ch]) name)
      in if result \<noteq> '' '' then result else ''No name'')"

text \<open>
  \<^verbatim>\<open>Contact.replace\<close>, \<^verbatim>\<open>Contact.delete\<close>, \<^verbatim>\<open>Contact.update\<close>, each under
  \<^verbatim>\<open>index_error_decorator\<close>. A call that raises leaves the contact as it was. \<^verbatim>\<open>replace\<close> and
  \<^verbatim>\<open>update\<close> subscript the list, \<^verbatim>\<open>delete\<close> calls \<^verbatim>\<open>pop\<close>.
\<close>

definition Contact_replace :: "contact \<Rightarrow> index_arg \<Rightarrow> data_field \<Rightarrow> error + contact" where
  "Contact_replace c index field_item =
     index_error_decorator
       (case subscript_position (length (contact_fields c)) index of
          Inl e \<Rightarrow> Inl e
        | Inr j \<Rightarrow> Inr (c\<lparr>contact_fields := (contact_fields c)[j := field_item]\<rparr>))"

definition Contact_delete :: "contact \<Rightarrow> index_arg \<Rightarrow> error + contact" where
  "Contact_delete c idx =
     index_error_decorator
       (case py_int idx of
          Inl e \<Rightarrow> Inl e
        | Inr i \<Rightarrow>
            (case pop_position (length (contact_fields c)) i of
               Inl e \<Rightarrow> Inl e
             | Inr j \<Rightarrow>
                 Inr (c\<lparr>contact_fields := take j (contact_fields c) @ drop (Suc j) (contact_fields c)\<rparr>)))"

definition Contact_update :: "contact \<Rightarrow> index_arg \<Rightarrow> string \<Rightarrow> error + contact" where
  "Contact_update c field_idx v =
     index_error_decorator
       (case py_int field_idx of
          Inl e \<Rightarrow> Inl e
        | Inr i \<Rightarrow>
            (case list_position (length (contact_fields c)) i of
               None \<Rightarrow> Inl IndexError
             | Some j \<Rightarrow>
                 (case validate (contact_fields c ! j) v of
                    Inl e \<Rightarrow> Inl e
                  | Inr field \<Rightarrow> Inr (c\<lparr>contact_fields := (contact_fields c)[j := field]\<rparr>))))"

text \<open>\<^verbatim>\<open>DataField.__contains__\<close>, \<^verbatim>\<open>Contact.field_search\<close>, \<^verbatim>\<open>Contact.__contains__\<close>.\<close>

definition field_contains :: "data_field \<Rightarrow> string \<Rightarrow> bool" where
  "field_contains f item = str_contains item (field_value f)"

fun field_search_loop :: "data_field list \<Rightarrow> string \<Rightarrow> string \<Rightarrow> bool" where
  "field_search_loop [] field_name search_value = False"
| "field_search_loop (field # rest) field_name search_value =
     (if field_description field = field_name then field_contains field search_value
      else field_search_loop rest field_name search_value)"

definition field_search :: "contact \<Rightarrow> string \<Rightarrow> string \<Rightarrow> bool" where
  "field_search c field_name search_value = field_search_loop (contact_fields c) field_name search_value"

fun contains_loop :: "data_field list \<Rightarrow> string \<Rightarrow> bool" where
  "contains_loop [] item = False"
| "contains_loop (field # rest) item =
     (if field_contains field item then True else contains_loop rest item)"

definition Contact_contains :: "contact \<Rightarrow> string \<Rightarrow> bool" where
  "Contact_contains c item = contains_loop (contact_fields c) item"

subsection \<open>AddressBook\<close>

text \<open>
  \<^verbatim>\<open>contacts\<close> is a dict from ids to contacts, kept as the list of its items in insertion
  order. \<^verbatim>\<open>loads\<close> assigns an attribute \<^verbatim>\<open>last_contacts_id\<close>, which \<^verbatim>\<open>__init__\<close> does not
  create; it is \<open>None\<close> until then.
\<close>

record address_book =
  contacts :: "(int \<times> contact) list"
  last_contact_id :: int
  last_contacts_id :: "int option"

definition AddressBook_init :: address_book where
  "AddressBook_init = \<lparr>contacts = [], last_contact_id = 0, last_contacts_id = None\<rparr>"

text \<open>\<^verbatim>\<open>d[k] = v\<close>: an existing key keeps its place, a new key goes last. \<^verbatim>\<open>d.pop(k)\<close>.\<close>

fun dict_set :: "'k \<Rightarrow> 'v \<Rightarrow> ('k \<times> 'v) list \<Rightarrow> ('k \<times> 'v) list" where
  "dict_set k v [] = [(k, v)]"
| "dict_set k v ((k', v') # d) = (if k' = k then (k, v) # d else (k', v') # dict_set k v d)"


text \<open>
  The document after \<^verbatim>\<open>json.loads\<close>, and before \<^verbatim>\<open>json.dumps\<close>: the items of a dict from
  string keys to contacts, in document order.
\<close>

type_synonym document = "(string \<times> contact_dict) list"

definition dumps :: "address_book \<Rightarrow> document" where
  "dumps ab = map (\<lambda>(rec_id, rec). (str_int rec_id, Contact_to_json rec)) (contacts ab)"

definition AddressBook_add :: "address_book \<Rightarrow> contact \<Rightarrow> int \<times> address_book" where
  "AddressBook_add ab c =
     (last_contact_id ab,
      ab\<lparr>contacts := dict_set (last_contact_id ab) c (contacts ab),
         last_contact_id := last_contact_id ab + 1\<rparr>)"

fun loads_loop :: "document \<Rightarrow> address_book \<Rightarrow> (error + unit) \<times> address_book" where
  "loads_loop [] ab = (Inr (), ab)"
| "loads_loop ((key, contact_list) # rest) ab =
     (case from_json contact_list Contact_init of
        (Inl e, c) \<Rightarrow> (Inl e, ab)
      | (Inr u, c) \<Rightarrow> loads_loop rest (snd (AddressBook_add ab c)))"

text \<open>
  \<^verbatim>\<open>AddressBook.loads\<close>: the result, and the book as the call leaves it. The counter
  \<^verbatim>\<open>last_contact_id\<close> is not assigned.
\<close>

definition loads :: "address_book \<Rightarrow> document \<Rightarrow> (error + unit) \<times> address_book" where
  "loads ab json_contacts =
     loads_loop json_contacts (ab\<lparr>contacts := [], last_contacts_id := Some 0\<rparr>)"




subsection \<open>Sequences of address book operations\<close>





text \<open>Every id in use is below the counter.\<close>

definition ids_below_counter :: "address_book \<Rightarrow> bool" where
  "ids_below_counter ab \<longleftrightarrow> (\<forall>k \<in> fst ` set (contacts ab). k < last_contact_id ab)"

subsection \<open>The phone pattern in the words of the specification\<close>

text \<open>
  The specification describes a phone number as six consecutive parts: an optional \<^verbatim>\<open>+\<close>, an
  optional two-digit country code, an optional \<^verbatim>\<open>(\<close>, the operator code (\<^verbatim>\<open>0\<close> and two more
  digits), an optional \<^verbatim>\<open>)\<close>, and seven digits that end the string. It reads the pattern
  on the input with all whitespace removed.
\<close>

definition spec_phone_parts ::
  "string \<Rightarrow> string \<Rightarrow> string \<Rightarrow> string \<Rightarrow> string \<Rightarrow> string \<Rightarrow> bool" where
  "spec_phone_parts sign cc lp opc rp num \<longleftrightarrow>
     (sign = [] \<or> sign = ''+'') \<and>
     (cc = [] \<or> (length cc = 2 \<and> list_all is_digit cc)) \<and>
     (lp = [] \<or> lp = ''('') \<and>
     (length opc = 3 \<and> hd opc = CHR ''0'' \<and> list_all is_digit opc) \<and>
     (rp = [] \<or> rp = '')'') \<and>
     (length num = 7 \<and> list_all is_digit num)"

definition spec_remove_whitespace :: "string \<Rightarrow> string" where
  "spec_remove_whitespace s = filter (\<lambda>c. \<not> is_space c) s"

subsection \<open>Validated fields\<close>

text \<open>
  What the validators establish for a field object, and \<^verbatim>\<open>update\<close> keeps: a Phone holds
  a two-digit country code, an operator code \<^verbatim>\<open>0dd\<close> and seven subscriber digits, and its
  value is \<^verbatim>\<open>+\<close> followed by the three; an Email value matches \<^verbatim>\<open>EMAIL_REGEX\<close>; a Birthday
  value is one \<^verbatim>\<open>strptime\<close> accepts.
\<close>

definition no_phone_parts :: "data_field \<Rightarrow> bool" where
  "no_phone_parts f \<longleftrightarrow> country_code f = [] \<and> operator_code f = [] \<and> phone_number f = []"

definition valid_field :: "data_field \<Rightarrow> bool" where
  "valid_field f \<longleftrightarrow>
     (case kind f of
        Phone \<Rightarrow>
          length (country_code f) = 2 \<and> list_all is_digit (country_code f) \<and>
          length (operator_code f) = 3 \<and> hd (operator_code f) = CHR ''0'' \<and>
          list_all is_digit (operator_code f) \<and>
          length (phone_number f) = 7 \<and> list_all is_digit (phone_number f) \<and>
          field_value f = ''+'' @ country_code f @ operator_code f @ phone_number f
      | Email \<Rightarrow> EMAIL_REGEX_match (field_value f) \<and> no_phone_parts f
      | Birthday \<Rightarrow> \<not> isl (strptime (field_value f)) \<and> no_phone_parts f
      | Name \<Rightarrow> no_phone_parts f
      | Note \<Rightarrow> no_phone_parts f)"

subsection \<open>Consecutive ids\<close>

text \<open>The items \<open>(k, x\<^sub>0), (k + 1, x\<^sub>1), \<dots>\<close>: what a run of \<^verbatim>\<open>add\<close> calls starting at counter \<open>k\<close> stores.\<close>

fun numbered_from :: "int \<Rightarrow> 'a list \<Rightarrow> (int \<times> 'a) list" where
  "numbered_from k [] = []"
| "numbered_from k (x # xs) = (k, x) # numbered_from (k + 1) xs"

section \<open>Properties\<close>

lemma is_digit_iff: "is_digit c \<longleftrightarrow> c \<in> set ''0123456789''"
  by (simp add: is_digit_def)

subsection \<open>Canonical phone values\<close>

lemma digit_not_punctuation:
  "is_digit c \<Longrightarrow> c \<noteq> CHR ''+'' \<and> c \<noteq> CHR ''('' \<and> c \<noteq> CHR '')''"
  by (auto simp: is_digit_iff)

lemma seven_digits_shape:
  assumes "length num = 7"
  obtains n1 n2 n3 n4 n5 n6 n7 where "num = [n1, n2, n3, n4, n5, n6, n7]"
  using assms by (auto simp: length_Suc_conv eval_nat_numeral)

lemma subscriber_exact:
  "length num = 7 \<Longrightarrow> list_all is_digit num \<Longrightarrow> subscriber num = Some num"
  by (simp add: subscriber_def)

lemma from_close_parts:
  assumes "rp = [] \<or> rp = '')''" "length num = 7" "list_all is_digit num"
  shows "from_close (rp @ num) = Some num"
proof -
  obtain n1 n2 n3 n4 n5 n6 n7 where num: "num = [n1, n2, n3, n4, n5, n6, n7]"
    using assms(2) by (rule seven_digits_shape)
  have "n1 \<noteq> CHR '')''"
    using assms(3) digit_not_punctuation [of n1] by (simp add: num)
  then show ?thesis
    using assms subscriber_exact [of num]
    by (auto simp: from_close_def num)
qed

lemma from_operator_parts:
  assumes "length opc = 3" "hd opc = CHR ''0''" "list_all is_digit opc"
    "rp = [] \<or> rp = '')''" "length num = 7" "list_all is_digit num"
  shows "from_operator (opc @ rp @ num) = Some (opc, num)"
proof -
  obtain a b c where opc: "opc = [a, b, c]"
    using assms(1) by (auto simp: length_Suc_conv eval_nat_numeral)
  show ?thesis
    using assms(2,3) from_close_parts [OF assms(4,5,6)]
    by (simp add: from_operator_def opc)
qed

lemma from_open_parts:
  assumes "lp = [] \<or> lp = ''(''" "length opc = 3" "hd opc = CHR ''0''" "list_all is_digit opc"
    "rp = [] \<or> rp = '')''" "length num = 7" "list_all is_digit num"
  shows "from_open (lp @ opc @ rp @ num) = Some (opc, num)"
proof -
  obtain a b c where opc: "opc = [a, b, c]"
    using assms(2) by (auto simp: length_Suc_conv eval_nat_numeral)
  have a: "a = CHR ''0''" using assms(3) by (simp add: opc)
  have op: "from_operator (opc @ rp @ num) = Some (opc, num)"
    by (rule from_operator_parts [OF assms(2-7)])
  from assms(1) show ?thesis
  proof
    assume "lp = []"
    then show ?thesis using op by (simp add: from_open_def opc a)
  next
    assume "lp = ''(''"
    then show ?thesis using op by (simp add: from_open_def)
  qed
qed

text \<open>Without a country code, the attempt to read one from the first two digits fails later.\<close>

lemma from_open_too_short:
  assumes "is_digit c" "rp = [] \<or> rp = '')''" "length num = 7" "list_all is_digit num"
  shows "from_open (c # rp @ num) = None"
proof -
  obtain n1 n2 n3 n4 n5 n6 n7 where num: "num = [n1, n2, n3, n4, n5, n6, n7]"
    using assms(3) by (rule seven_digits_shape)
  have c: "c \<noteq> CHR ''(''" using digit_not_punctuation [OF assms(1)] by simp
  have n3: "n3 \<noteq> CHR '')''"
    using assms(4) digit_not_punctuation [of n3] by (simp add: num)
  from assms(2) show ?thesis
  proof
    assume "rp = []"
    then show ?thesis
      using c n3 by (simp add: from_open_def from_operator_def from_close_def subscriber_def num)
  next
    assume "rp = '')''"
    then show ?thesis
      using c by (simp add: from_open_def from_operator_def is_digit_iff num)
  qed
qed

lemma from_country_parts:
  assumes "cc = [] \<or> (length cc = 2 \<and> list_all is_digit cc)"
    "lp = [] \<or> lp = ''(''" "length opc = 3" "hd opc = CHR ''0''" "list_all is_digit opc"
    "rp = [] \<or> rp = '')''" "length num = 7" "list_all is_digit num"
  shows "from_country (cc @ lp @ opc @ rp @ num)
         = Some (if cc = [] then None else Some cc, Some opc, num)"
proof -
  obtain a b c where opc: "opc = [a, b, c]"
    using assms(3) by (auto simp: length_Suc_conv eval_nat_numeral)
  have digits: "is_digit a" "is_digit b" "is_digit c" using assms(5) by (simp_all add: opc)
  have op: "from_open (lp @ opc @ rp @ num) = Some (opc, num)"
    by (rule from_open_parts [OF assms(2-8)])
  from assms(1) show ?thesis
  proof
    assume cc: "cc = []"
    from assms(2) show ?thesis
    proof
      assume lp: "lp = []"
      have "from_open (c # rp @ num) = None"
        by (rule from_open_too_short [OF digits(3) assms(6-8)])
      then show ?thesis
        using op digits by (simp add: from_country_def cc lp opc)
    next
      assume lp: "lp = ''(''"
      have "\<not> is_digit (CHR ''('')" by (simp add: is_digit_iff)
      then show ?thesis
        using op by (simp add: from_country_def cc lp Let_def split: list.splits)
    qed
  next
    assume "length cc = 2 \<and> list_all is_digit cc"
    then obtain c1 c2 where cc: "cc = [c1, c2]" and d: "is_digit c1" "is_digit c2"
      by (auto simp: length_Suc_conv eval_nat_numeral)
    show ?thesis
      using op d by (simp add: from_country_def cc)
  qed
qed

lemma PHONE_REGEX_search_parts:
  assumes "spec_phone_parts sign cc lp opc rp num"
  shows "PHONE_REGEX_search (sign @ cc @ lp @ opc @ rp @ num)
         = Some (if cc = [] then None else Some cc, Some opc, num)"
proof -
  from assms have parts:
    "sign = [] \<or> sign = ''+''"
    "cc = [] \<or> (length cc = 2 \<and> list_all is_digit cc)"
    "lp = [] \<or> lp = ''(''" "length opc = 3" "hd opc = CHR ''0''" "list_all is_digit opc"
    "rp = [] \<or> rp = '')''" "length num = 7" "list_all is_digit num"
    by (simp_all add: spec_phone_parts_def)
  have country: "from_country (cc @ lp @ opc @ rp @ num)
      = Some (if cc = [] then None else Some cc, Some opc, num)"
    by (rule from_country_parts [OF parts(2-9)])
  obtain a b c where opc: "opc = [a, b, c]"
    using parts(4) by (auto simp: length_Suc_conv eval_nat_numeral)
  have first: "hd (cc @ lp @ opc @ rp @ num) \<noteq> CHR ''+''" "cc @ lp @ opc @ rp @ num \<noteq> []"
    using parts(2,3,5,6) digit_not_punctuation [of "hd cc"]
    by (auto simp: opc length_Suc_conv eval_nat_numeral)
  from parts(1) show ?thesis
  proof
    assume "sign = []"
    then show ?thesis
      using country first by (cases "cc @ lp @ opc @ rp @ num") (simp_all add: PHONE_REGEX_search_def)
  next
    assume "sign = ''+''"
    then show ?thesis
      using country by (simp add: PHONE_REGEX_search_def)
  qed
qed

text \<open>
  C2, as amended. Take any input that, once its space characters are deleted, reads as the
  six parts of the phone pattern. Creating a Phone field from it succeeds, and the value is
  \<^verbatim>\<open>+\<close>, the country code, the operator code and the subscriber number with nothing between
  them; the country code is \<^verbatim>\<open>38\<close> when the input has none. (The claim deletes all
  whitespace; \<^verbatim>\<open>value.replace(" ", "")\<close> deletes the space character only.)
\<close>

theorem phone_canonical_value:
  assumes "spec_phone_parts sign cc lp opc rp num"
    and "filter (\<lambda>c. c \<noteq> CHR '' '') x = sign @ cc @ lp @ opc @ rp @ num"
  shows "field_class_init Phone x =
           Inr \<lparr>kind = Phone,
                field_value = ''+'' @ (if cc = [] then ''38'' else cc) @ opc @ num,
                country_code = (if cc = [] then ''38'' else cc),
                operator_code = opc,
                phone_number = num\<rparr>"
  using PHONE_REGEX_search_parts [OF assms(1)] assms(2)
  by (simp add: field_class_init_def validate_def blank_field_def phone_validate_def)

text \<open>The theorem on \<^verbatim>\<open>+38 (099) 1234567\<close> and on \<^verbatim>\<open>050 765 43 21\<close>.\<close>

theorem phone_canonical_value_witness:
  "spec_phone_parts ''+'' ''38'' ''('' ''099'' '')'' ''1234567''
   \<and> field_class_init Phone ''+38 (099) 1234567'' =
       Inr \<lparr>kind = Phone, field_value = ''+380991234567'', country_code = ''38'',
              operator_code = ''099'', phone_number = ''1234567''\<rparr>
   \<and> spec_phone_parts [] [] [] ''050'' [] ''7654321''
   \<and> field_class_init Phone ''050 765 43 21'' =
       Inr \<lparr>kind = Phone, field_value = ''+380507654321'', country_code = ''38'',
              operator_code = ''050'', phone_number = ''7654321''\<rparr>"
proof -
  have p1: "spec_phone_parts ''+'' ''38'' ''('' ''099'' '')'' ''1234567''"
    by (simp add: spec_phone_parts_def is_digit_iff)
  have p2: "spec_phone_parts [] [] [] ''050'' [] ''7654321''"
    by (simp add: spec_phone_parts_def is_digit_iff)
  show ?thesis
    using p1 p2 phone_canonical_value [OF p1, of "''+38 (099) 1234567''"]
      phone_canonical_value [OF p2, of "''050 765 43 21''"]
    by simp
qed

text \<open>
  C2 as stated fails on whitespace other than the space: with a tab between operator code
  and subscriber number the input matches the pattern once all whitespace is removed, but
  \<^verbatim>\<open>PhoneField\<close> keeps the tab and finds no phone number.
\<close>

theorem phone_tab_counterexample:
  "spec_phone_parts [] [] [] ''099'' [] ''1234567''
   \<and> spec_remove_whitespace (''099'' @ [CHR 0x09] @ ''1234567'') = [] @ [] @ [] @ ''099'' @ [] @ ''1234567''
   \<and> field_class_init Phone (''099'' @ [CHR 0x09] @ ''1234567'')
       = Inl (IncorrectInput (''No phone number found in 099'' @ [CHR 0x09] @ ''1234567''))"
  by (simp add: spec_phone_parts_def spec_remove_whitespace_def is_space_def is_digit_iff
      field_class_init_def validate_def blank_field_def phone_validate_def
      PHONE_REGEX_search_def from_country_def from_open_def from_operator_def from_close_def
      subscriber_def)

subsection \<open>Phone numbers without an operator code\<close>

text \<open>What a match of \<^verbatim>\<open>PHONE_REGEX\<close> returns: every group has its shape.\<close>

lemma subscriber_Some:
  "subscriber s = Some n \<Longrightarrow> length n = 7 \<and> list_all is_digit n"
  by (auto simp: subscriber_def split: if_splits)

lemma from_close_Some:
  "from_close s = Some n \<Longrightarrow> length n = 7 \<and> list_all is_digit n"
  by (auto simp: from_close_def dest: subscriber_Some split: list.splits if_splits option.splits)

lemma from_operator_Some:
  assumes "from_operator s = Some (opc, n)"
  shows "length opc = 3 \<and> hd opc = CHR ''0'' \<and> list_all is_digit opc
         \<and> length n = 7 \<and> list_all is_digit n"
proof -
  from assms obtain a b c r where s: "s = a # b # c # r"
    by (auto simp: from_operator_def split: list.splits)
  from assms have "a = CHR ''0'' \<and> is_digit b \<and> is_digit c" and opc: "opc = [a, b, c]"
    and "from_close r = Some n"
    by (auto simp: from_operator_def s split: if_splits)
  then show ?thesis
    using from_close_Some [of r n] by (simp add: is_digit_iff)
qed

lemma from_open_Some:
  assumes "from_open s = Some (opc, n)"
  shows "length opc = 3 \<and> hd opc = CHR ''0'' \<and> list_all is_digit opc
         \<and> length n = 7 \<and> list_all is_digit n"
proof -
  from assms have "from_operator s = Some (opc, n) \<or> from_operator (tl s) = Some (opc, n)"
    by (auto simp: from_open_def split: list.splits if_splits option.splits)
  then show ?thesis using from_operator_Some by blast
qed

lemma from_country_Some:
  assumes "from_country s = Some (country, operator, n)"
  shows "(\<exists>opc. operator = Some opc \<and> length opc = 3 \<and> hd opc = CHR ''0''
            \<and> list_all is_digit opc)
         \<and> length n = 7 \<and> list_all is_digit n
         \<and> (\<forall>cc. country = Some cc \<longrightarrow> length cc = 2 \<and> list_all is_digit cc)"
  using assms unfolding from_country_def Let_def
  by (auto split: list.splits if_splits option.splits dest!: from_open_Some simp: is_digit_iff)

lemma PHONE_REGEX_search_Some:
  assumes "PHONE_REGEX_search s = Some (country, operator, n)"
  shows "(\<exists>opc. operator = Some opc \<and> length opc = 3 \<and> hd opc = CHR ''0''
            \<and> list_all is_digit opc)
         \<and> length n = 7 \<and> list_all is_digit n
         \<and> (\<forall>cc. country = Some cc \<longrightarrow> length cc = 2 \<and> list_all is_digit cc)"
proof -
  from assms have "from_country s = Some (country, operator, n)
      \<or> from_country (tl s) = Some (country, operator, n)"
    by (auto simp: PHONE_REGEX_search_def split: list.splits if_splits option.splits)
  then show ?thesis using from_country_Some by blast
qed

text \<open>The branch "Operator code not found" of \<^verbatim>\<open>PhoneField.validate\<close> is never taken.\<close>

lemma operator_group_never_None:
  "PHONE_REGEX_search s \<noteq> Some (country, None, n)"
  using PHONE_REGEX_search_Some [of s country None n] by auto

lemma phone_validate_never_operator_not_found:
  "phone_validate f v \<noteq> Inl (IncorrectInput (''Operator code not found in '' @ w))"
proof (cases "PHONE_REGEX_search (filter (\<lambda>c. c \<noteq> CHR '' '') v)")
  case None
  then show ?thesis by (simp add: phone_validate_def)
next
  case (Some g)
  obtain country operator n where g: "g = (country, operator, n)" by (cases g)
  from Some obtain opc where "operator = Some opc"
    using PHONE_REGEX_search_Some [of _ country operator n] by (auto simp: g)
  then show ?thesis using Some by (simp add: phone_validate_def g Let_def)
qed

text \<open>
  C4. In \<^verbatim>\<open>PHONE_REGEX\<close> the operator group \<^verbatim>\<open>(0\d{2})\<close> is not optional, so an input without
  an operator code does not match at all: \<^verbatim>\<open>+381234567\<close> is refused with "No phone number
  found", and the branch that raises "Operator code not found" is never taken.
\<close>

theorem phone_without_operator_is_no_match:
  "field_class_init Phone ''+381234567''
   = Inl (IncorrectInput ''No phone number found in +381234567'')"
  by (simp add: is_digit_iff field_class_init_def validate_def blank_field_def phone_validate_def
      PHONE_REGEX_search_def from_country_def from_open_def from_operator_def from_close_def
      subscriber_def)

subsection \<open>Fields stay valid\<close>

text \<open>A field never exists in an invalid state.\<close>

lemma validate_valid:
  assumes "validate f v = Inr f'" "kind f = Phone \<or> no_phone_parts f"
  shows "valid_field f' \<and> kind f' = kind f"
proof (cases "kind f")
  case Phone
  let ?s = "filter (\<lambda>c. c \<noteq> CHR '' '') v"
  from assms(1) Phone obtain country operator n where
    m: "PHONE_REGEX_search ?s = Some (country, operator, n)"
    by (auto simp: validate_def phone_validate_def Let_def split: option.splits)
  from PHONE_REGEX_search_Some [OF m] obtain opc where
    opc: "operator = Some opc" "length opc = 3" "hd opc = CHR ''0''" "list_all is_digit opc"
    and n: "length n = 7" "list_all is_digit n"
    and cc: "\<forall>cc. country = Some cc \<longrightarrow> length cc = 2 \<and> list_all is_digit cc"
    by blast
  have f': "f' = f\<lparr>country_code := (case country of None \<Rightarrow> ''38'' | Some c \<Rightarrow> c),
                   operator_code := opc, phone_number := n,
                   field_value := ''+'' @ (case country of None \<Rightarrow> ''38'' | Some c \<Rightarrow> c) @ opc @ n\<rparr>"
    using assms(1) Phone by (simp add: validate_def phone_validate_def Let_def m opc(1))
  show ?thesis
    using Phone opc n cc
    by (cases country) (simp_all add: f' valid_field_def is_digit_iff)
next
  case Email
  then show ?thesis
    using assms by (auto simp: validate_def email_validate_def valid_field_def no_phone_parts_def
        split: if_splits)
next
  case Birthday
  then show ?thesis
    using assms by (auto simp: validate_def birthday_validate_def valid_field_def
        no_phone_parts_def datetime_truthy_def split: sum.splits if_splits)
next
  case Name
  then show ?thesis
    using assms by (auto simp: validate_def valid_field_def no_phone_parts_def)
next
  case Note
  then show ?thesis
    using assms by (auto simp: validate_def valid_field_def no_phone_parts_def)
qed

lemma validate_keeps_valid:
  "valid_field f \<Longrightarrow> validate f v = Inr f' \<Longrightarrow> valid_field f' \<and> kind f' = kind f"
  by (rule validate_valid) (auto simp: valid_field_def split: field_kind.splits)

lemma field_class_init_valid:
  "field_class_init k v = Inr f \<Longrightarrow> valid_field f \<and> kind f = k"
  using validate_valid [of "blank_field k" v f]
  by (simp add: field_class_init_def blank_field_def no_phone_parts_def)

lemma digit_not_space: "is_digit c \<Longrightarrow> c \<noteq> CHR '' ''"
  by (auto simp: is_digit_iff)

lemma digits_keep: "list_all is_digit s \<Longrightarrow> filter (\<lambda>c. c \<noteq> CHR '' '') s = s"
  by (induction s) (auto dest: digit_not_space)

text \<open>Validating the value of a valid field again gives the field back.\<close>

lemma field_class_init_again:
  assumes "valid_field f"
  shows "field_class_init (kind f) (field_value f) = Inr f"
proof (cases "kind f")
  case Phone
  let ?cc = "country_code f" and ?op = "operator_code f" and ?n = "phone_number f"
  from assms Phone have v: "length ?cc = 2" "list_all is_digit ?cc" "length ?op = 3"
    "hd ?op = CHR ''0''" "list_all is_digit ?op" "length ?n = 7" "list_all is_digit ?n"
    "field_value f = ''+'' @ ?cc @ ?op @ ?n"
    by (simp_all add: valid_field_def)
  have parts: "spec_phone_parts ''+'' ?cc [] ?op [] ?n"
    using v by (simp add: spec_phone_parts_def)
  have "filter (\<lambda>c. c \<noteq> CHR '' '') (field_value f) = ''+'' @ ?cc @ [] @ ?op @ [] @ ?n"
    using v by (simp add: digits_keep)
  moreover have "?cc \<noteq> []" using v(1) by auto
  ultimately show ?thesis
    using PHONE_REGEX_search_parts [OF parts] Phone v(8)
    by (cases f)
      (simp add: field_class_init_def validate_def blank_field_def phone_validate_def Let_def)
next
  case Email
  then show ?thesis
    using assms
    by (simp add: field_class_init_def validate_def blank_field_def email_validate_def
        valid_field_def no_phone_parts_def)
next
  case Birthday
  then show ?thesis
    using assms
    by (auto simp: field_class_init_def validate_def blank_field_def birthday_validate_def
        valid_field_def no_phone_parts_def datetime_truthy_def split: sum.splits)
next
  case Name
  then show ?thesis
    using assms
    by (simp add: field_class_init_def validate_def blank_field_def valid_field_def
        no_phone_parts_def)
next
  case Note
  then show ?thesis
    using assms
    by (simp add: field_class_init_def validate_def blank_field_def valid_field_def
        no_phone_parts_def)
qed

lemma REGISTERED_FIELDS_description: "REGISTERED_FIELDS (description k) = Some k"
  by (cases k) (simp_all add: REGISTERED_FIELDS_def)

lemma field_decoder_to_json:
  assumes "valid_field f"
  shows "field_decoder (to_json f) = Inr f"
  using field_class_init_again [OF assms]
  by (simp add: field_decoder_def to_json_def field_description_def
      REGISTERED_FIELDS_description)

lemma from_json_loop_to_json:
  "list_all valid_field fs \<Longrightarrow>
     from_json_loop (map to_json fs) c = (Inr (), c\<lparr>contact_fields := contact_fields c @ fs\<rparr>)"
  by (induction fs arbitrary: c) (simp_all add: field_decoder_to_json Contact_add_def)

lemma from_json_to_json:
  assumes "list_all valid_field (contact_fields c)"
  shows "from_json (Contact_to_json c) Contact_init
         = (Inr (), Contact_init\<lparr>contact_fields := contact_fields c\<rparr>)"
  using from_json_loop_to_json [OF assms, of Contact_init]
  by (cases "contact_fields c") (simp_all add: from_json_def Contact_to_json_def Contact_init_def)

subsection \<open>Birthdays\<close>

text \<open>
  C7. \<^verbatim>\<open>strptime\<close> raises \<^verbatim>\<open>ValueError\<close> on a date it cannot parse and never returns a false
  value, so \<^verbatim>\<open>BirthdayField.validate\<close> never reaches its own \<^verbatim>\<open>raise IncorrectInput\<close>. Creating
  a Birthday from \<^verbatim>\<open>31.02.2020\<close> raises \<^verbatim>\<open>ValueError\<close>; in \<^verbatim>\<open>Contact.update\<close> the decorator turns
  that \<^verbatim>\<open>ValueError\<close> into the message about the index. \<^verbatim>\<open>01.02.2020\<close> is accepted as given.
\<close>

theorem birthday_invalid_date_is_value_error:
  "field_class_init Birthday ''31.02.2020'' = Inl ValueError
   \<and> Contact_update
        (Contact_init\<lparr>contact_fields :=
           [\<lparr>kind = Birthday, field_value = ''01.02.2020'', country_code = [],
              operator_code = [], phone_number = []\<rparr>]\<rparr>)
        (IntArg 0) ''31.02.2020''
       = Inl (IncorrectInput ''Index value is not integer!'')
   \<and> field_class_init Birthday ''01.02.2020''
       = Inr \<lparr>kind = Birthday, field_value = ''01.02.2020'', country_code = [],
              operator_code = [], phone_number = []\<rparr>"
  by (simp add: is_digit_iff field_class_init_def validate_def blank_field_def
      birthday_validate_def
      strptime_def digit_val_def days_in_month_def is_leap_def datetime_truthy_def
      Contact_update_def py_int_def list_position_def index_error_decorator_def Contact_init_def)

subsection \<open>Field search\<close>

text \<open>What \<^verbatim>\<open>field_search\<close> computes: the answer of the first field of the kind, if any.\<close>

lemma field_search_first_of_kind:
  "field_search c field_name search_value =
     (case filter (\<lambda>f. field_description f = field_name) (contact_fields c) of
        [] \<Rightarrow> False
      | f # rest \<Rightarrow> field_contains f search_value)"
proof -
  have "field_search_loop fs field_name search_value =
     (case filter (\<lambda>f. field_description f = field_name) fs of
        [] \<Rightarrow> False
      | f # rest \<Rightarrow> field_contains f search_value)" for fs
    by (induction fs) simp_all
  then show ?thesis by (simp add: field_search_def)
qed

text \<open>
  C3. \<^verbatim>\<open>field_search\<close> returns from inside its loop at the first field of the kind asked for,
  so a later field of that kind is never looked at. With two Phone fields of which only
  the second holds \<^verbatim>\<open>050\<close>, the search for \<^verbatim>\<open>050\<close> among the phones answers False, although the
  second field does contain it. (\<^verbatim>\<open>Contact.__contains__\<close>, the search over all fields, goes on to
  the next field and would find it.)
\<close>

theorem field_search_stops_at_first_of_kind:
  "field_search
     (Contact_init\<lparr>contact_fields :=
        [\<lparr>kind = Phone, field_value = ''+380991234567'', country_code = ''38'',
           operator_code = ''099'', phone_number = ''1234567''\<rparr>,
         \<lparr>kind = Phone, field_value = ''+380501112233'', country_code = ''38'',
           operator_code = ''050'', phone_number = ''1112233''\<rparr>]\<rparr>)
     ''Phone'' ''050'' = False
   \<and> field_contains
       \<lparr>kind = Phone, field_value = ''+380501112233'', country_code = ''38'',
          operator_code = ''050'', phone_number = ''1112233''\<rparr> ''050''
   \<and> Contact_contains
       (Contact_init\<lparr>contact_fields :=
          [\<lparr>kind = Phone, field_value = ''+380991234567'', country_code = ''38'',
             operator_code = ''099'', phone_number = ''1234567''\<rparr>,
           \<lparr>kind = Phone, field_value = ''+380501112233'', country_code = ''38'',
             operator_code = ''050'', phone_number = ''1112233''\<rparr>]\<rparr>) ''050''"
  by (simp add: field_search_def field_description_def field_contains_def Contact_init_def
      Contact_contains_def)

subsection \<open>Display name\<close>

text \<open>The fallback of \<^verbatim>\<open>name\<close> is taken for exactly one flattened name: a single space.\<close>

lemma join_characters_single_space:
  "join '' '' (map (\<lambda>ch. [ch]) s) = '' '' \<longleftrightarrow> s = '' ''"
proof (cases s)
  case Nil
  then show ?thesis by simp
next
  case (Cons a s')
  then show ?thesis by (cases s') simp_all
qed

lemma join_characters_not_No_name:
  "join '' '' (map (\<lambda>ch. [ch]) s) \<noteq> ''No name''"
proof (cases s)
  case Nil
  then show ?thesis by simp
next
  case (Cons a s')
  then show ?thesis by (cases s') simp_all
qed

lemma name_fallback_iff:
  "name c = ''No name'' \<longleftrightarrow>
     (let names = map field_value (filter (\<lambda>f. field_description f = ''Name'') (contact_fields c))
      in names \<noteq> [] \<and> join '' '' names = '' '')"
proof -
  let ?names = "map field_value (filter (\<lambda>f. field_description f = ''Name'') (contact_fields c))"
  let ?flat = "if ?names \<noteq> [] then join '' '' ?names else []"
  have "name c = (if join '' '' (map (\<lambda>ch. [ch]) ?flat) \<noteq> '' ''
                  then join '' '' (map (\<lambda>ch. [ch]) ?flat) else ''No name'')"
    by (simp add: name_def Let_def)
  then have "name c = ''No name'' \<longleftrightarrow> ?flat = '' ''"
    using join_characters_single_space [of ?flat] join_characters_not_No_name [of ?flat]
    by (metis (no_types, lifting))
  then show ?thesis by (auto simp: Let_def)
qed

text \<open>
  C5. \<^verbatim>\<open>name\<close> falls back to "No name" only when the joined string is exactly one space.
  A contact without any Name field gets the empty string, and a name of two spaces comes
  back as three spaces.
\<close>

theorem name_without_name_field_is_empty:
  "name Contact_init = []
   \<and> name (Contact_init\<lparr>contact_fields :=
        [\<lparr>kind = Name, field_value = ''  '', country_code = [], operator_code = [],
           phone_number = []\<rparr>]\<rparr>) = ''   ''"
  by (simp add: name_def Contact_init_def field_description_def)

subsection \<open>Replacing a field\<close>

text \<open>With an integer index, \<^verbatim>\<open>replace\<close> does what the specification says.\<close>

lemma replace_integer_index:
  "Contact_replace c (IntArg i) field_item =
     (if - int (length (contact_fields c)) \<le> i \<and> i < int (length (contact_fields c))
      then Inr (c\<lparr>contact_fields :=
                  (contact_fields c)
                    [nat (if i < 0 then i + int (length (contact_fields c)) else i) := field_item]\<rparr>)
      else Inl IndexError)"
  by (auto simp: Contact_replace_def subscript_position_def list_position_def
      index_error_decorator_def Let_def)

text \<open>
  C6. \<^verbatim>\<open>Contact.replace\<close> subscripts the list with the index as given; unlike \<^verbatim>\<open>delete\<close> and
  \<^verbatim>\<open>update\<close> it does not call \<^verbatim>\<open>int\<close>. A string index therefore raises \<^verbatim>\<open>TypeError\<close>, which the
  decorator lets through, whether the string reads as an integer or not.
\<close>

theorem replace_string_index_is_type_error:
  "Contact_replace c (StrArg s) field_item = Inl TypeError"
  by (simp add: Contact_replace_def subscript_position_def index_error_decorator_def)

subsection \<open>Negative indices in delete and update\<close>

lemma validate_not_IndexError: "validate f v \<noteq> Inl IndexError"
  by (auto simp: validate_def birthday_validate_def phone_validate_def email_validate_def
      strptime_def datetime_truthy_def Let_def
      split: field_kind.splits option.splits sum.splits prod.splits if_splits)

lemma decorator_IndexError:
  "index_error_decorator r = Inl IndexError \<longleftrightarrow> r = Inl IndexError"
  by (auto simp: index_error_decorator_def split: sum.splits error.splits)

lemma list_position_None:
  "list_position n i = None \<longleftrightarrow> i < - int n \<or> int n \<le> i"
  by (auto simp: list_position_def Let_def)

lemma list_position_negative:
  "- int n \<le> i \<Longrightarrow> i < 0 \<Longrightarrow> list_position n i = Some (nat (i + int n))"
  by (auto simp: list_position_def Let_def)

text \<open>The three outcomes of \<^verbatim>\<open>pop\<close>.\<close>

lemma pop_position_OverflowError:
  "pop_position n i = Inl OverflowError \<longleftrightarrow> i < - PY_SSIZE_T_MAX - 1 \<or> PY_SSIZE_T_MAX < i"
  by (auto simp: pop_position_def split: option.splits)

lemma pop_position_IndexError:
  "pop_position n i = Inl IndexError \<longleftrightarrow>
     (i < - int n \<or> int n \<le> i) \<and> - PY_SSIZE_T_MAX - 1 \<le> i \<and> i \<le> PY_SSIZE_T_MAX"
  using list_position_None [of n i]
  by (auto simp: pop_position_def split: option.splits)

lemma pop_position_negative:
  assumes "int n \<le> PY_SSIZE_T_MAX" "- int n \<le> i" "i < 0"
  shows "pop_position n i = Inr (nat (i + int n))"
proof -
  have "0 \<le> PY_SSIZE_T_MAX" by (simp add: PY_SSIZE_T_MAX_def)
  then have "\<not> (i < - PY_SSIZE_T_MAX - 1 \<or> PY_SSIZE_T_MAX < i)"
    using assms by linarith
  then show ?thesis
    using list_position_negative [OF assms(2,3)] by (simp add: pop_position_def)
qed

lemma delete_IndexError:
  "Contact_delete c (IntArg i) = Inl IndexError
     \<longleftrightarrow> (i < - int (length (contact_fields c)) \<or> int (length (contact_fields c)) \<le> i)
         \<and> - PY_SSIZE_T_MAX - 1 \<le> i \<and> i \<le> PY_SSIZE_T_MAX"
proof -
  have "Contact_delete c (IntArg i) = Inl IndexError
      \<longleftrightarrow> pop_position (length (contact_fields c)) i = Inl IndexError"
    by (cases "pop_position (length (contact_fields c)) i")
      (simp_all add: Contact_delete_def decorator_IndexError py_int_def)
  then show ?thesis by (simp add: pop_position_IndexError)
qed

text \<open>
  Outside the range of \<^verbatim>\<open>Py_ssize_t\<close>, \<^verbatim>\<open>delete\<close> raises \<^verbatim>\<open>OverflowError\<close>, which the decorator
  lets through.
\<close>

lemma delete_OverflowError:
  "Contact_delete c (IntArg i) = Inl OverflowError
     \<longleftrightarrow> i < - PY_SSIZE_T_MAX - 1 \<or> PY_SSIZE_T_MAX < i"
proof -
  have "Contact_delete c (IntArg i) = Inl OverflowError
      \<longleftrightarrow> pop_position (length (contact_fields c)) i = Inl OverflowError"
    by (cases "pop_position (length (contact_fields c)) i")
      (auto simp: Contact_delete_def index_error_decorator_def py_int_def split: error.splits)
  then show ?thesis by (simp add: pop_position_OverflowError)
qed

lemma update_IndexError:
  "Contact_update c (IntArg i) v = Inl IndexError
     \<longleftrightarrow> i < - int (length (contact_fields c)) \<or> int (length (contact_fields c)) \<le> i"
proof (cases "list_position (length (contact_fields c)) i")
  case None
  then show ?thesis
    using list_position_None [of "length (contact_fields c)" i]
    by (simp add: Contact_update_def decorator_IndexError py_int_def)
next
  case (Some j)
  then show ?thesis
    using list_position_None [of "length (contact_fields c)" i]
      validate_not_IndexError [of "contact_fields c ! j" v]
    by (auto simp: Contact_update_def decorator_IndexError py_int_def split: sum.splits)
qed

lemma delete_negative:
  assumes "int (length (contact_fields c)) \<le> PY_SSIZE_T_MAX"
    "- int (length (contact_fields c)) \<le> i" "i < 0"
  shows "Contact_delete c (IntArg i) =
           Inr (c\<lparr>contact_fields :=
                  take (nat (i + int (length (contact_fields c)))) (contact_fields c)
                  @ drop (Suc (nat (i + int (length (contact_fields c))))) (contact_fields c)\<rparr>)"
  using pop_position_negative [OF assms]
  by (simp add: Contact_delete_def py_int_def index_error_decorator_def)

lemma delete_last:
  assumes "1 \<le> length (contact_fields c)" "int (length (contact_fields c)) \<le> PY_SSIZE_T_MAX"
  shows "Contact_delete c (IntArg (- 1)) = Inr (c\<lparr>contact_fields := butlast (contact_fields c)\<rparr>)"
proof -
  let ?n = "length (contact_fields c)"
  have "nat (- 1 + int ?n) = ?n - 1" using assms(1) by simp
  moreover have "take (?n - 1) (contact_fields c) @ drop (Suc (?n - 1)) (contact_fields c)
      = butlast (contact_fields c)"
    using assms(1) by (simp add: butlast_conv_take)
  ultimately show ?thesis
    using delete_negative [OF assms(2), of "- 1"] assms(1) by simp
qed

text \<open>
  C10. \<^verbatim>\<open>Contact.delete\<close> and \<^verbatim>\<open>Contact.update\<close> pass the integer index to \<^verbatim>\<open>list.pop\<close> and to the
  list subscript, which count a negative index from the end. On a contact with \<open>n \<ge> 1\<close>
  fields (a Python list never holds more than \<^verbatim>\<open>PY_SSIZE_T_MAX\<close> items), an index \<open>i\<close> with
  \<open>-n \<le> i < 0\<close> addresses the field at position \<open>n + i\<close>: \<^verbatim>\<open>delete\<close> removes it, \<^verbatim>\<open>update\<close>
  validates the new value against it; \<^verbatim>\<open>delete(-1)\<close> removes the last field. \<^verbatim>\<open>IndexError\<close> is
  raised only for integers below \<open>-n\<close> or from \<open>n\<close> on: by \<^verbatim>\<open>update\<close> for all of them, by
  \<^verbatim>\<open>delete\<close> for those that fit \<^verbatim>\<open>Py_ssize_t\<close>.
\<close>

theorem delete_update_negative_index:
  assumes "1 \<le> length (contact_fields c)"
    and "int (length (contact_fields c)) \<le> PY_SSIZE_T_MAX"
  shows "(- int (length (contact_fields c)) \<le> i \<and> i < 0 \<longrightarrow>
            Contact_delete c (IntArg i) =
              Inr (c\<lparr>contact_fields :=
                     take (nat (i + int (length (contact_fields c)))) (contact_fields c)
                     @ drop (Suc (nat (i + int (length (contact_fields c))))) (contact_fields c)\<rparr>)
            \<and> Contact_update c (IntArg i) v =
              index_error_decorator
                (case validate (contact_fields c ! nat (i + int (length (contact_fields c)))) v of
                   Inl e \<Rightarrow> Inl e
                 | Inr field \<Rightarrow>
                     Inr (c\<lparr>contact_fields :=
                            (contact_fields c)[nat (i + int (length (contact_fields c))) := field]\<rparr>)))
     \<and> Contact_delete c (IntArg (- 1)) = Inr (c\<lparr>contact_fields := butlast (contact_fields c)\<rparr>)
     \<and> (Contact_delete c (IntArg i) = Inl IndexError
           \<longleftrightarrow> (i < - int (length (contact_fields c)) \<or> int (length (contact_fields c)) \<le> i)
               \<and> - PY_SSIZE_T_MAX - 1 \<le> i \<and> i \<le> PY_SSIZE_T_MAX)
     \<and> (Contact_update c (IntArg i) v = Inl IndexError
           \<longleftrightarrow> i < - int (length (contact_fields c)) \<or> int (length (contact_fields c)) \<le> i)"
proof -
  have upd: "- int (length (contact_fields c)) \<le> i \<and> i < 0 \<longrightarrow>
            Contact_update c (IntArg i) v =
              index_error_decorator
                (case validate (contact_fields c ! nat (i + int (length (contact_fields c)))) v of
                   Inl e \<Rightarrow> Inl e
                 | Inr field \<Rightarrow>
                     Inr (c\<lparr>contact_fields :=
                            (contact_fields c)[nat (i + int (length (contact_fields c))) := field]\<rparr>))"
    by (simp add: Contact_update_def py_int_def list_position_negative index_error_decorator_def)
  show ?thesis
    using upd delete_negative [OF assms(2), of i] delete_last [OF assms]
      delete_IndexError [of c i] update_IndexError [of c i v]
    by blast
qed

text \<open>
  The theorem on a contact of two fields: indices -1 and -2 are served, -3 is out of range,
  and \<open>2\<^sup>6\<^sup>3\<close> is beyond \<^verbatim>\<open>Py_ssize_t\<close>.
\<close>

theorem delete_update_negative_index_witness:
  "Contact_delete
     (Contact_init\<lparr>contact_fields :=
        [\<lparr>kind = Name, field_value = ''Alice'', country_code = [], operator_code = [],
           phone_number = []\<rparr>,
         \<lparr>kind = Note, field_value = ''friend'', country_code = [], operator_code = [],
           phone_number = []\<rparr>]\<rparr>) (IntArg (- 1))
   = Inr (Contact_init\<lparr>contact_fields :=
        [\<lparr>kind = Name, field_value = ''Alice'', country_code = [], operator_code = [],
           phone_number = []\<rparr>]\<rparr>)
   \<and> Contact_update
     (Contact_init\<lparr>contact_fields :=
        [\<lparr>kind = Name, field_value = ''Alice'', country_code = [], operator_code = [],
           phone_number = []\<rparr>,
         \<lparr>kind = Note, field_value = ''friend'', country_code = [], operator_code = [],
           phone_number = []\<rparr>]\<rparr>) (IntArg (- 2)) ''Bob''
   = Inr (Contact_init\<lparr>contact_fields :=
        [\<lparr>kind = Name, field_value = ''Bob'', country_code = [], operator_code = [],
           phone_number = []\<rparr>,
         \<lparr>kind = Note, field_value = ''friend'', country_code = [], operator_code = [],
           phone_number = []\<rparr>]\<rparr>)
   \<and> Contact_delete
     (Contact_init\<lparr>contact_fields :=
        [\<lparr>kind = Name, field_value = ''Alice'', country_code = [], operator_code = [],
           phone_number = []\<rparr>,
         \<lparr>kind = Note, field_value = ''friend'', country_code = [], operator_code = [],
           phone_number = []\<rparr>]\<rparr>) (IntArg (- 3)) = Inl IndexError
   \<and> Contact_delete
     (Contact_init\<lparr>contact_fields :=
        [\<lparr>kind = Name, field_value = ''Alice'', country_code = [], operator_code = [],
           phone_number = []\<rparr>,
         \<lparr>kind = Note, field_value = ''friend'', country_code = [], operator_code = [],
           phone_number = []\<rparr>]\<rparr>) (IntArg 9223372036854775808) = Inl OverflowError"
  using delete_update_negative_index
    [of "Contact_init\<lparr>contact_fields :=
        [\<lparr>kind = Name, field_value = ''Alice'', country_code = [], operator_code = [],
           phone_number = []\<rparr>,
         \<lparr>kind = Note, field_value = ''friend'', country_code = [], operator_code = [],
           phone_number = []\<rparr>]\<rparr>" "- 2" "''Bob''"]
    delete_update_negative_index
    [of "Contact_init\<lparr>contact_fields :=
        [\<lparr>kind = Name, field_value = ''Alice'', country_code = [], operator_code = [],
           phone_number = []\<rparr>,
         \<lparr>kind = Note, field_value = ''friend'', country_code = [], operator_code = [],
           phone_number = []\<rparr>]\<rparr>" "- 3" "''Bob''"]
    delete_update_negative_index
    [of "Contact_init\<lparr>contact_fields :=
        [\<lparr>kind = Name, field_value = ''Alice'', country_code = [], operator_code = [],
           phone_number = []\<rparr>,
         \<lparr>kind = Note, field_value = ''friend'', country_code = [], operator_code = [],
           phone_number = []\<rparr>]\<rparr>" "9223372036854775808" "''Bob''"]
  by (simp add: Contact_init_def validate_def index_error_decorator_def PY_SSIZE_T_MAX_def
      Contact_delete_def py_int_def pop_position_def)

lemma delete_beyond_ssize_t:
  "Contact_delete c (IntArg 9223372036854775808) = Inl OverflowError"
  using delete_OverflowError [of c 9223372036854775808] by (simp add: PY_SSIZE_T_MAX_def)

subsection \<open>The contacts dict and the loading loop\<close>

lemma dict_set_keys: "fst ` set (dict_set k v d) = insert k (fst ` set d)"
  by (induction k v d rule: dict_set.induct) auto

lemma dict_set_fresh: "k \<notin> fst ` set d \<Longrightarrow> dict_set k v d = d @ [(k, v)]"
  by (induction d) auto




lemma add_keeps_ids_below:
  "ids_below_counter ab \<Longrightarrow> ids_below_counter (snd (AddressBook_add ab c))"
  by (auto simp: ids_below_counter_def AddressBook_add_def dict_set_keys)


lemma add_appends:
  assumes "ids_below_counter ab"
  shows "snd (AddressBook_add ab c) =
           ab\<lparr>contacts := contacts ab @ [(last_contact_id ab, c)],
              last_contact_id := last_contact_id ab + 1\<rparr>"
proof -
  have "last_contact_id ab \<notin> fst ` set (contacts ab)"
    using assms by (auto simp: ids_below_counter_def)
  then show ?thesis
    by (simp add: AddressBook_add_def dict_set_fresh)
qed


text \<open>A run of entries that all decode is a run of \<^verbatim>\<open>add\<close> calls.\<close>

lemma loads_loop_decoded_prefix:
  assumes "ids_below_counter ab"
    and "\<forall>(key, d) \<in> set pre. fst (from_json d Contact_init) = Inr ()"
  shows "loads_loop (pre @ rest) ab =
           loads_loop rest
             (ab\<lparr>contacts := contacts ab @
                   numbered_from (last_contact_id ab)
                     (map (\<lambda>(key, d). snd (from_json d Contact_init)) pre),
                 last_contact_id := last_contact_id ab + int (length pre)\<rparr>)"
  using assms
proof (induction pre arbitrary: ab)
  case Nil
  then show ?case by simp
next
  case (Cons entry pre)
  obtain key contact_list where entry: "entry = (key, contact_list)" by (cases entry)
  obtain r c where fj: "from_json contact_list Contact_init = (r, c)"
    by (cases "from_json contact_list Contact_init")
  have r: "r = Inr ()" using Cons.prems(2) by (simp add: entry fj)
  let ?ab = "snd (AddressBook_add ab c)"
  have inv: "ids_below_counter ?ab" by (rule add_keeps_ids_below [OF Cons.prems(1)])
  have rest_ok: "\<forall>(key, d) \<in> set pre. fst (from_json d Contact_init) = Inr ()"
    using Cons.prems(2) by simp
  have "loads_loop ((entry # pre) @ rest) ab = loads_loop (pre @ rest) ?ab"
    by (simp add: entry fj r)
  also have "\<dots> = loads_loop rest
             (?ab\<lparr>contacts := contacts ?ab @
                   numbered_from (last_contact_id ?ab)
                     (map (\<lambda>(key, d). snd (from_json d Contact_init)) pre),
                 last_contact_id := last_contact_id ?ab + int (length pre)\<rparr>)"
    by (rule Cons.IH [OF inv rest_ok])
  also have "(?ab\<lparr>contacts := contacts ?ab @
                   numbered_from (last_contact_id ?ab)
                     (map (\<lambda>(key, d). snd (from_json d Contact_init)) pre),
                 last_contact_id := last_contact_id ?ab + int (length pre)\<rparr>)
      = (ab\<lparr>contacts := contacts ab @
                   numbered_from (last_contact_id ab)
                     (map (\<lambda>(key, d). snd (from_json d Contact_init)) (entry # pre)),
                 last_contact_id := last_contact_id ab + int (length (entry # pre))\<rparr>)"
    by (simp add: add_appends [OF Cons.prems(1)] entry fj)
  finally show ?case .
qed

lemma field_decoder_undecodable:
  assumes "map_of bad ''field_name'' = None \<or> map_of bad ''value'' = None
      \<or> (\<exists>n. map_of bad ''field_name'' = Some n \<and> REGISTERED_FIELDS n = None)"
  shows "field_decoder bad = Inl (FieldDecodeError decode_message)"
  using assms by (auto simp: field_decoder_def split: option.splits)

lemma from_json_loop_stops:
  assumes "\<forall>d \<in> set good. \<not> isl (field_decoder d)"
    and "field_decoder bad = Inl e"
  shows "fst (from_json_loop (good @ bad # later) c) = Inl e"
  using assms
proof (induction good arbitrary: c)
  case Nil
  then show ?case by simp
next
  case (Cons d good)
  then obtain f where "field_decoder d = Inr f"
    by (cases "field_decoder d") auto
  then show ?case using Cons by simp
qed

subsection \<open>A load that meets an undecodable field\<close>

text \<open>
  C8, as amended. Let the document hold entries that all decode, then a contact whose field
  list has, after fields that decode, a field without \<^verbatim>\<open>field_name\<close>, without \<^verbatim>\<open>value\<close>, or
  with a \<^verbatim>\<open>field_name\<close> that is not registered. Then \<^verbatim>\<open>loads\<close> raises \<^verbatim>\<open>FieldDecodeError\<close> at
  that entry, whatever follows it, and leaves the book as loading the earlier entries alone
  leaves it: their contacts, under consecutive ids. When the failing contact is the first
  of the document, the book is left without contacts.
\<close>

theorem loads_aborts_at_undecodable_field:
  assumes "\<forall>(key, d) \<in> set pre. fst (from_json d Contact_init) = Inr ()"
    and "map_of contact_list ''fields'' = Some (JList (good @ bad # later))"
    and "\<forall>d \<in> set good. \<not> isl (field_decoder d)"
    and "map_of bad ''field_name'' = None \<or> map_of bad ''value'' = None
      \<or> (\<exists>n. map_of bad ''field_name'' = Some n \<and> REGISTERED_FIELDS n = None)"
  shows "loads ab (pre @ (key, contact_list) # post) =
           (Inl (FieldDecodeError decode_message),
            ab\<lparr>contacts :=
                  numbered_from (last_contact_id ab)
                    (map (\<lambda>(key, d). snd (from_json d Contact_init)) pre),
               last_contact_id := last_contact_id ab + int (length pre),
               last_contacts_id := Some 0\<rparr>)
         \<and> loads ab pre =
           (Inr (),
            ab\<lparr>contacts :=
                  numbered_from (last_contact_id ab)
                    (map (\<lambda>(key, d). snd (from_json d Contact_init)) pre),
               last_contact_id := last_contact_id ab + int (length pre),
               last_contacts_id := Some 0\<rparr>)
         \<and> (pre = [] \<longrightarrow>
              contacts (snd (loads ab ((key, contact_list) # post))) = [])"
proof -
  let ?ab0 = "ab\<lparr>contacts := [], last_contacts_id := Some 0\<rparr>"
  have inv: "ids_below_counter ?ab0" by (simp add: ids_below_counter_def)
  have bad: "field_decoder bad = Inl (FieldDecodeError decode_message)"
    by (rule field_decoder_undecodable [OF assms(4)])
  have "fst (from_json_loop (good @ bad # later) Contact_init)
      = Inl (FieldDecodeError decode_message)"
    by (rule from_json_loop_stops [OF assms(3) bad])
  then have fj: "fst (from_json contact_list Contact_init) = Inl (FieldDecodeError decode_message)"
    by (simp add: from_json_def assms(2))
  have stop: "loads_loop ((key, contact_list) # post) b = (Inl (FieldDecodeError decode_message), b)"
    for b
    using fj by (cases "from_json contact_list Contact_init") simp
  have one: "loads ab (pre @ (key, contact_list) # post) =
           (Inl (FieldDecodeError decode_message),
            ab\<lparr>contacts :=
                  numbered_from (last_contact_id ab)
                    (map (\<lambda>(key, d). snd (from_json d Contact_init)) pre),
               last_contact_id := last_contact_id ab + int (length pre),
               last_contacts_id := Some 0\<rparr>)"
    unfolding loads_def loads_loop_decoded_prefix [OF inv assms(1)] stop
    by simp
  have two: "loads ab pre =
           (Inr (),
            ab\<lparr>contacts :=
                  numbered_from (last_contact_id ab)
                    (map (\<lambda>(key, d). snd (from_json d Contact_init)) pre),
               last_contact_id := last_contact_id ab + int (length pre),
               last_contacts_id := Some 0\<rparr>)"
    using loads_loop_decoded_prefix [OF inv assms(1), of "[]"]
    by (simp add: loads_def)
  have three: "pre = [] \<longrightarrow> contacts (snd (loads ab ((key, contact_list) # post))) = []"
    unfolding loads_def stop by simp
  show ?thesis using one two three by blast
qed

text \<open>
  The theorem on a document of three contacts: the first decodes, the second has a valid
  Email field followed by a field named \<^verbatim>\<open>Bogus\<close>, the third is never reached.
\<close>

theorem loads_aborts_at_undecodable_field_witness:
  "loads AddressBook_init
     [(''0'', [(''fields'', JList [[(''value'', ''Alice''), (''field_name'', ''Name'')]])]),
      (''x'', [(''fields'', JList [[(''value'', ''a@b.co''), (''field_name'', ''Email'')],
                                   [(''field_name'', ''Bogus''), (''value'', ''v'')]])]),
      (''2'', [(''fields'', JList [])])]
   = (Inl (FieldDecodeError decode_message),
      \<lparr>contacts =
         [(0, Contact_init\<lparr>contact_fields :=
                [\<lparr>kind = Name, field_value = ''Alice'', country_code = [], operator_code = [],
                   phone_number = []\<rparr>]\<rparr>)],
       last_contact_id = 1, last_contacts_id = Some 0\<rparr>)"
  using loads_aborts_at_undecodable_field
    [of "[(''0'', [(''fields'', JList [[(''value'', ''Alice''), (''field_name'', ''Name'')]])])]"
        "[(''fields'', JList [[(''value'', ''a@b.co''), (''field_name'', ''Email'')],
                              [(''field_name'', ''Bogus''), (''value'', ''v'')]])]"
        "[[(''value'', ''a@b.co''), (''field_name'', ''Email'')]]"
        "[(''field_name'', ''Bogus''), (''value'', ''v'')]"
        "[]" AddressBook_init "''x''" "[(''2'', [(''fields'', JList [])])]"]
  by (simp add: from_json_def field_decoder_def REGISTERED_FIELDS_def field_class_init_def
      validate_def blank_field_def email_validate_def EMAIL_REGEX_match_def Contact_add_def
      Contact_init_def AddressBook_init_def)

text \<open>
  C8 as stated, for any document with such a field, fails when something earlier is
  refused first: \<^verbatim>\<open>loads\<close> raises the first error it meets. In a contact with the fields
  Email \<^verbatim>\<open>foo\<close> and then \<^verbatim>\<open>Bogus\<close>, the Email validator raises \<^verbatim>\<open>IncorrectInput\<close>, which
  \<^verbatim>\<open>field_decoder\<close> does not translate, before the unregistered name is looked at.
\<close>

theorem loads_earlier_refusal_counterexample:
  "REGISTERED_FIELDS ''Bogus'' = None
   \<and> loads AddressBook_init
        [(''x'', [(''fields'', JList [[(''field_name'', ''Email''), (''value'', ''foo'')],
                                      [(''field_name'', ''Bogus''), (''value'', ''v'')]])])]
      = (Inl (IncorrectInput ''foo is not an email.''),
         \<lparr>contacts = [], last_contact_id = 0, last_contacts_id = Some 0\<rparr>)"
  by (simp add: loads_def from_json_def field_decoder_def REGISTERED_FIELDS_def
      field_class_init_def validate_def blank_field_def email_validate_def EMAIL_REGEX_match_def
      AddressBook_init_def)

subsection \<open>Ids and the counter\<close>








subsection \<open>Reloading a dumped book\<close>

text \<open>
  Reloading a dump: the contacts come back in order, each with the fields it had, under
  consecutive ids that start at the counter of the loading book (not at 0).
\<close>

lemma loads_dumps_fields:
  assumes "\<forall>(k, c) \<in> set (contacts ab). list_all valid_field (contact_fields c)"
  shows "loads target (dumps ab) =
           (Inr (),
            target\<lparr>contacts :=
                  numbered_from (last_contact_id target)
                    (map (\<lambda>(k, c). Contact_init\<lparr>contact_fields := contact_fields c\<rparr>) (contacts ab)),
               last_contact_id := last_contact_id target + int (length (contacts ab)),
               last_contacts_id := Some 0\<rparr>)"
proof -
  let ?t0 = "target\<lparr>contacts := [], last_contacts_id := Some 0\<rparr>"
  have inv: "ids_below_counter ?t0" by (simp add: ids_below_counter_def)
  have ok: "\<forall>(key, d) \<in> set (dumps ab). fst (from_json d Contact_init) = Inr ()"
    using assms by (auto simp: dumps_def from_json_to_json)
  have same: "map (\<lambda>(key, d). snd (from_json d Contact_init)) (dumps ab)
      = map (\<lambda>(k, c). Contact_init\<lparr>contact_fields := contact_fields c\<rparr>) (contacts ab)"
    using assms by (auto simp: dumps_def from_json_to_json)
  have len: "length (dumps ab) = length (contacts ab)"
    by (simp add: dumps_def)
  have "loads target (dumps ab) = loads_loop (dumps ab @ []) ?t0"
    by (simp add: loads_def)
  also have "\<dots> = loads_loop []
             (?t0\<lparr>contacts := contacts ?t0 @
                   numbered_from (last_contact_id ?t0)
                     (map (\<lambda>(key, d). snd (from_json d Contact_init)) (dumps ab)),
                 last_contact_id := last_contact_id ?t0 + int (length (dumps ab))\<rparr>)"
    by (rule loads_loop_decoded_prefix [OF inv ok])
  finally show ?thesis
    unfolding same len by simp
qed

text \<open>
  C1. The specification has \<open>load(dump())\<close> renumber the contacts from 0. In the source,
  \<^verbatim>\<open>loads\<close> assigns \<^verbatim>\<open>last_contacts_id\<close>, not the counter \<^verbatim>\<open>last_contact_id\<close> that \<^verbatim>\<open>add\<close> reads
  and \<^verbatim>\<open>clear\<close> resets. A book holding one contact under id 0 comes back from its own dump
  with the same single contact and the same fields, but under id 1, the counter at 2.
\<close>

theorem loads_dumps_keeps_counter:
  "loads
     (snd (AddressBook_add AddressBook_init
        (Contact_init\<lparr>contact_fields :=
           [\<lparr>kind = Name, field_value = ''Alice'', country_code = [], operator_code = [],
              phone_number = []\<rparr>,
            \<lparr>kind = Phone, field_value = ''+380991234567'', country_code = ''38'',
              operator_code = ''099'', phone_number = ''1234567''\<rparr>]\<rparr>)))
     (dumps
        (snd (AddressBook_add AddressBook_init
           (Contact_init\<lparr>contact_fields :=
              [\<lparr>kind = Name, field_value = ''Alice'', country_code = [], operator_code = [],
                 phone_number = []\<rparr>,
               \<lparr>kind = Phone, field_value = ''+380991234567'', country_code = ''38'',
                 operator_code = ''099'', phone_number = ''1234567''\<rparr>]\<rparr>))))
   = (Inr (),
      \<lparr>contacts =
         [(1, Contact_init\<lparr>contact_fields :=
            [\<lparr>kind = Name, field_value = ''Alice'', country_code = [], operator_code = [],
               phone_number = []\<rparr>,
             \<lparr>kind = Phone, field_value = ''+380991234567'', country_code = ''38'',
               operator_code = ''099'', phone_number = ''1234567''\<rparr>]\<rparr>)],
       last_contact_id = 2, last_contacts_id = Some 0\<rparr>)"
  by (simp add: is_digit_iff loads_def dumps_def AddressBook_add_def AddressBook_init_def Contact_to_json_def
      from_json_def Contact_init_def to_json_def field_description_def field_decoder_def
      REGISTERED_FIELDS_def field_class_init_def validate_def blank_field_def phone_validate_def
      PHONE_REGEX_search_def from_country_def from_open_def from_operator_def from_close_def
      subscriber_def Contact_add_def)

end
